theory Spec2Isabelle
  imports Main
begin

section \<open>JavaScript values as the drag-and-drop helpers see them\<close>

text \<open>
  The helpers of \<^verbatim>\<open>dragdrop.ts\<close> receive the text of a drag payload, hand it to
  \<^verbatim>\<open>safe_json_parse\<close> and read properties of whatever comes back. The parsed
  value is cast to its TypeScript type without any check, so the model keeps the
  untyped value: a JSON tree.

  A number is kept as what this code can observe of it: whether it is zero (the only
  falsy numbers JSON can produce are \<open>0\<close> and \<open>-0\<close>) and the text that
  \<^verbatim>\<open>Number.prototype.toString\<close> gives for it. An object is the list of its own
  properties, each key once. \<open>None\<close> of type \<open>json option\<close> is \<^verbatim>\<open>undefined\<close>.
\<close>

datatype json =
    JNull
  | JBool bool
  | JNum bool string
  | JStr string
  | JArr "json list"
  | JObj "(string \<times> json) list"

type_synonym js_value = "json option"

text \<open>The one exception these helpers can raise by themselves.\<close>

datatype js_error = TypeError

text \<open>\<^verbatim>\<open>!v\<close> is false exactly for the truthy values.\<close>

fun js_truthy :: "js_value \<Rightarrow> bool" where
  "js_truthy None = False"
| "js_truthy (Some JNull) = False"
| "js_truthy (Some (JBool b)) = b"
| "js_truthy (Some (JNum is_zero txt)) = (\<not> is_zero)"
| "js_truthy (Some (JStr s)) = (s \<noteq> [])"
| "js_truthy (Some (JArr xs)) = True"
| "js_truthy (Some (JObj kvs)) = True"

text \<open>
  The property read \<^verbatim>\<open>v?.k\<close>, for the keys the helpers read (\<^verbatim>\<open>type\<close>,
  \<^verbatim>\<open>id\<close>, \<^verbatim>\<open>pack\<close>, \<^verbatim>\<open>actorId\<close>, \<^verbatim>\<open>sceneId\<close>, \<^verbatim>\<open>tokenId\<close>): none of
  them is inherited from a prototype, so only an object with that own property gives
  a value. For a value that is neither \<^verbatim>\<open>null\<close> nor \<^verbatim>\<open>undefined\<close> the plain read
  \<^verbatim>\<open>v.k\<close> is the same.
\<close>

fun js_prop :: "js_value \<Rightarrow> string \<Rightarrow> js_value" where
  "js_prop (Some (JObj kvs)) k = map_of kvs k"
| "js_prop v k = None"

text \<open>
  \<^verbatim>\<open>Array.prototype.join\<close> with the default separator, on the already converted
  elements; the first element whose conversion throws decides.
\<close>

fun js_join_strs :: "(js_error + string) list \<Rightarrow> js_error + string" where
  "js_join_strs [] = Inr []"
| "js_join_strs [r] = r"
| "js_join_strs (r # rs) =
     (case r of
        Inl e \<Rightarrow> Inl e
      | Inr s \<Rightarrow> (case js_join_strs rs of Inl e \<Rightarrow> Inl e | Inr t \<Rightarrow> Inr (s @ '','' @ t)))"

text \<open>
  \<^verbatim>\<open>ToString\<close> of a parsed value. An array joins its elements, \<^verbatim>\<open>null\<close> elements
  as the empty string. A plain object answers \<^verbatim>\<open>[object Object]\<close> through the
  inherited \<^verbatim>\<open>toString\<close>; an own property of that name, which parsed JSON can only
  fill with something that is not callable, hides it and the conversion throws.
\<close>

fun js_to_string :: "json \<Rightarrow> js_error + string" where
  "js_to_string JNull = Inr ''null''"
| "js_to_string (JBool b) = Inr (if b then ''true'' else ''false'')"
| "js_to_string (JNum is_zero txt) = Inr txt"
| "js_to_string (JStr s) = Inr s"
| "js_to_string (JArr xs) =
     js_join_strs (map (\<lambda>x. if x = JNull then Inr [] else js_to_string x) xs)"
| "js_to_string (JObj kvs) =
     (if map_of kvs ''toString'' \<noteq> None then Inl TypeError else Inr ''[object Object]'')"

text \<open>
  The loose comparison \<^verbatim>\<open>v == name\<close> against one of the literals of the code
  (\<^verbatim>\<open>"Item"\<close>, \<^verbatim>\<open>"Actor"\<close>, \<^verbatim>\<open>"JournalEntry"\<close>). None of them reads as a
  number, so a boolean or a number never equals it; an array or an object is first
  converted to a primitive, which is its string.
\<close>

fun js_loose_eq_name :: "js_value \<Rightarrow> string \<Rightarrow> js_error + bool" where
  "js_loose_eq_name None name = Inr False"
| "js_loose_eq_name (Some JNull) name = Inr False"
| "js_loose_eq_name (Some (JBool b)) name = Inr False"
| "js_loose_eq_name (Some (JNum is_zero txt)) name = Inr False"
| "js_loose_eq_name (Some (JStr s)) name = Inr (s = name)"
| "js_loose_eq_name (Some v) name =
     (case js_to_string v of Inl e \<Rightarrow> Inl e | Inr s \<Rightarrow> Inr (s = name))"

section \<open>The host's collections\<close>

text \<open>
  The host owns the documents. The module reaches them through \<^verbatim>\<open>game.packs\<close>,
  \<^verbatim>\<open>game.scenes\<close>, \<^verbatim>\<open>game.actors\<close>, \<^verbatim>\<open>game.items\<close> and \<^verbatim>\<open>game.journals\<close>,
  each a collection keyed by strings. Of a document the model keeps its id and, for an
  actor, the items embedded in it. A compendium pack hands out documents of whatever
  kind it stores; a token's actor is absent when its base actor is gone.
\<close>

record item =
  item_id :: string

record actor =
  actor_id :: string
  items :: "string \<rightharpoonup> item"

record journal =
  journal_id :: string

datatype document =
    ActorDoc actor
  | ItemDoc item
  | JournalDoc journal
  | OtherDoc string

record token =
  token_actor :: "actor option"

record scene =
  tokens :: "string \<rightharpoonup> token"

type_synonym pack = "string \<rightharpoonup> document"

record game =
  game_packs :: "string \<rightharpoonup> pack"
  game_scenes :: "string \<rightharpoonup> scene"
  game_actors :: "string \<rightharpoonup> actor"
  game_items :: "string \<rightharpoonup> item"
  game_journals :: "string \<rightharpoonup> journal"

text \<open>
  What the page can change besides: the console. \<^verbatim>\<open>resolve_native_drop\<close> writes one
  line to it when it gives up, \<^verbatim>\<open>convert_ref_to_native_drop\<close> reports the refs it
  cannot convert. A ref, as far as this file reads it, is its type (\<^verbatim>\<open>null\<close> is
  \<open>None\<close>), its id and the name of its registry.
\<close>

record reg_ref =
  ref_type :: "string option"
  ref_id :: string
  ref_reg_name :: string

datatype console_line =
    ConsoleLog string js_value
  | ConsoleError string "reg_ref option"

record world =
  world_game :: game
  world_console :: "console_line list"

text \<open>\<^verbatim>\<open>collection.get(key)\<close>: the keys are strings, any other value finds nothing.\<close>

fun coll_get :: "(string \<rightharpoonup> 'v) \<Rightarrow> js_value \<Rightarrow> 'v option" where
  "coll_get m (Some (JStr s)) = m s"
| "coll_get m v = None"

text \<open>\<^verbatim>\<open>pack.getDocument(id)\<close>, awaited.\<close>

definition getDocument :: "pack \<Rightarrow> js_value \<Rightarrow> document option" where
  "getDocument p k = coll_get p k"

text \<open>
  \<^verbatim>\<open>doc.items\<close> of a document taken from a pack and cast to an actor: only an actor
  has the collection, on anything else the property is \<^verbatim>\<open>undefined\<close>.
\<close>

fun doc_items :: "document \<Rightarrow> (string \<rightharpoonup> item) option" where
  "doc_items (ActorDoc a) = Some (items a)"
| "doc_items d = None"

text \<open>\<^verbatim>\<open>game.scenes.get(sceneId)?.tokens.get(tokenId)\<close>\<close>

definition scene_token :: "game \<Rightarrow> js_value \<Rightarrow> js_value \<Rightarrow> token option" where
  "scene_token g sceneId tokenId =
     (case coll_get (game_scenes g) sceneId of
        None \<Rightarrow> None
      | Some sc \<Rightarrow> coll_get (tokens sc) tokenId)"

section \<open>resolve_native_drop\<close>

record resolved_native_drop =
  drop_type :: string
  entity :: document

text \<open>
  Lines 243 to 265: the five places an item can come from. The parsed payload, \<^verbatim>\<open>drop\<close>
  in the source, is \<open>dropped\<close> here; \<^verbatim>\<open>id\<close> is \<open>ident\<close>.
\<close>

definition resolve_item :: "game \<Rightarrow> js_value \<Rightarrow> js_error + document option" where
  "resolve_item g dropped =
     (let pack = js_prop dropped ''pack''; actorId = js_prop dropped ''actorId'';
          sceneId = js_prop dropped ''sceneId''; tokenId = js_prop dropped ''tokenId'';
          ident = js_prop dropped ''id''
      in if js_truthy pack \<and> js_truthy actorId then
           (case coll_get (game_packs g) pack of
              None \<Rightarrow> Inr None
            | Some p \<Rightarrow>
                (case getDocument p actorId of
                   None \<Rightarrow> Inr None
                 | Some d \<Rightarrow>
                     (case doc_items d of
                        None \<Rightarrow> Inl TypeError
                      | Some its \<Rightarrow> Inr (map_option ItemDoc (coll_get its ident)))))
         else if js_truthy sceneId \<and> js_truthy tokenId then
           (case scene_token g sceneId tokenId of
              None \<Rightarrow> Inr None
            | Some t \<Rightarrow>
                (case token_actor t of
                   None \<Rightarrow> Inr None
                 | Some a \<Rightarrow> Inr (map_option ItemDoc (coll_get (items a) ident))))
         else if js_truthy actorId then
           (case coll_get (game_actors g) actorId of
              None \<Rightarrow> Inr None
            | Some a \<Rightarrow> Inr (map_option ItemDoc (coll_get (items a) ident)))
         else if js_truthy pack then
           (case coll_get (game_packs g) pack of
              None \<Rightarrow> Inl TypeError
            | Some p \<Rightarrow> Inr (getDocument p ident))
         else Inr (map_option ItemDoc (coll_get (game_items g) ident)))"

text \<open>Lines 276 to 289: the three places an actor can come from.\<close>

definition resolve_actor :: "game \<Rightarrow> js_value \<Rightarrow> js_error + document option" where
  "resolve_actor g dropped =
     (let pack = js_prop dropped ''pack''; actorId = js_prop dropped ''actorId'';
          sceneId = js_prop dropped ''sceneId''; tokenId = js_prop dropped ''tokenId'';
          ident = js_prop dropped ''id''
      in if js_truthy pack then
           (case coll_get (game_packs g) pack of
              None \<Rightarrow> Inl TypeError
            | Some p \<Rightarrow> Inr (getDocument p ident))
         else if js_truthy sceneId \<and> js_truthy actorId then
           (case scene_token g sceneId tokenId of
              None \<Rightarrow> Inr None
            | Some t \<Rightarrow> Inr (map_option ActorDoc (token_actor t)))
         else Inr (map_option ActorDoc (coll_get (game_actors g) ident)))"

text \<open>Lines 299 to 310: the two places a journal entry can come from.\<close>

definition resolve_journal :: "game \<Rightarrow> js_value \<Rightarrow> js_error + document option" where
  "resolve_journal g dropped =
     (let pack = js_prop dropped ''pack''; ident = js_prop dropped ''id''
      in if js_truthy pack then
           (case coll_get (game_packs g) pack of
              None \<Rightarrow> Inl TypeError
            | Some p \<Rightarrow> Inr (getDocument p ident))
         else Inr (map_option JournalDoc (coll_get (game_journals g) ident)))"

text \<open>Lines 320 to 322: log and give up.\<close>

definition couldnt_resolve ::
  "js_value \<Rightarrow> world \<Rightarrow> (js_error + resolved_native_drop option) \<times> world" where
  "couldnt_resolve dropped w =
     (Inr None,
      w\<lparr>world_console :=
          world_console w @ [ConsoleLog ''Couldn't resolve native drop:'' dropped]\<rparr>)"

text \<open>
  The end of each branch: a thrown error leaves the function at once, a document is
  returned under the branch's tag, and nothing found falls through to the log.
\<close>

definition return_if_exists ::
  "string \<Rightarrow> js_error + document option \<Rightarrow> js_value \<Rightarrow> world
     \<Rightarrow> (js_error + resolved_native_drop option) \<times> world" where
  "return_if_exists tag r dropped w =
     (case r of
        Inl e \<Rightarrow> (Inl e, w)
      | Inr (Some d) \<Rightarrow> (Inr (Some \<lparr>drop_type = tag, entity = d\<rparr>), w)
      | Inr None \<Rightarrow> couldnt_resolve dropped w)"

text \<open>
  The function itself. \<open>safe_json_parse\<close> lives in a module outside this file and is
  a parameter: it gives \<open>None\<close> for a text it cannot parse. The result is the value
  the promise settles to, \<open>Inl\<close> when it is rejected, together with the world after
  the call.
\<close>

definition resolve_native_drop ::
  "(string \<Rightarrow> js_value) \<Rightarrow> string \<Rightarrow> world
     \<Rightarrow> (js_error + resolved_native_drop option) \<times> world" where
  "resolve_native_drop safe_json_parse event_data w =
     (let dropped = safe_json_parse event_data
      in if \<not> js_truthy dropped then (Inr None, w)
         else
           (case js_loose_eq_name (js_prop dropped ''type'') ''Item'' of
              Inl e \<Rightarrow> (Inl e, w)
            | Inr True \<Rightarrow>
                return_if_exists ''Item'' (resolve_item (world_game w) dropped) dropped w
            | Inr False \<Rightarrow>
                (case js_loose_eq_name (js_prop dropped ''type'') ''Actor'' of
                   Inl e \<Rightarrow> (Inl e, w)
                 | Inr True \<Rightarrow>
                     return_if_exists ''Actor'' (resolve_actor (world_game w) dropped) dropped w
                 | Inr False \<Rightarrow>
                     (case js_loose_eq_name (js_prop dropped ''type'') ''JournalEntry'' of
                        Inl e \<Rightarrow> (Inl e, w)
                      | Inr True \<Rightarrow>
                          return_if_exists ''JournalEntry''
                            (resolve_journal (world_game w) dropped) dropped w
                      | Inr False \<Rightarrow> couldnt_resolve dropped w))))"

subsection \<open>The locations, as the specification names them\<close>

text \<open>
  The specification describes the resolution as the choice of one location followed by
  one lookup. These definitions follow its words, field by field; a field is set when
  it is truthy. They are compared with the code below.
\<close>

datatype location =
    CompendiumActorItem js_value js_value js_value
  | TokenActorItem js_value js_value js_value
  | WorldActorItem js_value js_value
  | CompendiumDocument js_value js_value
  | WorldItem js_value
  | TokenActor js_value js_value
  | WorldActor js_value
  | WorldJournal js_value

definition item_location :: "js_value \<Rightarrow> location" where
  "item_location dropped =
     (let pack = js_prop dropped ''pack''; actorId = js_prop dropped ''actorId'';
          sceneId = js_prop dropped ''sceneId''; tokenId = js_prop dropped ''tokenId'';
          ident = js_prop dropped ''id''
      in if js_truthy pack \<and> js_truthy actorId then CompendiumActorItem pack actorId ident
         else if js_truthy sceneId \<and> js_truthy tokenId then TokenActorItem sceneId tokenId ident
         else if js_truthy actorId then WorldActorItem actorId ident
         else if js_truthy pack then CompendiumDocument pack ident
         else WorldItem ident)"

definition actor_location :: "js_value \<Rightarrow> location" where
  "actor_location dropped =
     (let pack = js_prop dropped ''pack''; actorId = js_prop dropped ''actorId'';
          sceneId = js_prop dropped ''sceneId''; tokenId = js_prop dropped ''tokenId'';
          ident = js_prop dropped ''id''
      in if js_truthy pack then CompendiumDocument pack ident
         else if js_truthy sceneId \<and> js_truthy actorId then TokenActor sceneId tokenId
         else WorldActor ident)"

definition journal_location :: "js_value \<Rightarrow> location" where
  "journal_location dropped =
     (let pack = js_prop dropped ''pack''; ident = js_prop dropped ''id''
      in if js_truthy pack then CompendiumDocument pack ident else WorldJournal ident)"

text \<open>The items embedded in the document \<open>k\<close> of a collection, when it is an actor.\<close>

definition items_of_actor_doc :: "document option \<Rightarrow> js_value \<Rightarrow> document option" where
  "items_of_actor_doc d ident =
     (case d of
        Some (ActorDoc a) \<Rightarrow> map_option ItemDoc (coll_get (items a) ident)
      | _ \<Rightarrow> None)"

text \<open>What the host holds at a location.\<close>

fun consult :: "game \<Rightarrow> location \<Rightarrow> document option" where
  "consult g (CompendiumActorItem pack actorId ident) =
     (case coll_get (game_packs g) pack of
        None \<Rightarrow> None
      | Some p \<Rightarrow> items_of_actor_doc (getDocument p actorId) ident)"
| "consult g (TokenActorItem sceneId tokenId ident) =
     (case scene_token g sceneId tokenId of
        None \<Rightarrow> None
      | Some t \<Rightarrow> items_of_actor_doc (map_option ActorDoc (token_actor t)) ident)"
| "consult g (WorldActorItem actorId ident) =
     items_of_actor_doc (map_option ActorDoc (coll_get (game_actors g) actorId)) ident"
| "consult g (CompendiumDocument pack ident) =
     (case coll_get (game_packs g) pack of None \<Rightarrow> None | Some p \<Rightarrow> getDocument p ident)"
| "consult g (WorldItem ident) = map_option ItemDoc (coll_get (game_items g) ident)"
| "consult g (TokenActor sceneId tokenId) =
     (case scene_token g sceneId tokenId of
        None \<Rightarrow> None
      | Some t \<Rightarrow> map_option ActorDoc (token_actor t))"
| "consult g (WorldActor ident) = map_option ActorDoc (coll_get (game_actors g) ident)"
| "consult g (WorldJournal ident) = map_option JournalDoc (coll_get (game_journals g) ident)"

fun is_item_doc :: "document \<Rightarrow> bool" where
  "is_item_doc (ItemDoc i) = True"
| "is_item_doc d = False"

fun is_actor_doc :: "document \<Rightarrow> bool" where
  "is_actor_doc (ActorDoc a) = True"
| "is_actor_doc d = False"

text \<open>
  The answer the specification gives for a location: the document under the tag when
  the lookup yields one of the wanted kind, \<^verbatim>\<open>null\<close> otherwise.
\<close>

definition answer_of_kind ::
  "string \<Rightarrow> (document \<Rightarrow> bool) \<Rightarrow> document option \<Rightarrow> resolved_native_drop option" where
  "answer_of_kind tag wanted found =
     (case found of
        None \<Rightarrow> None
      | Some d \<Rightarrow> if wanted d then Some \<lparr>drop_type = tag, entity = d\<rparr> else None)"

text \<open>The same without the test of the kind.\<close>

definition answer :: "string \<Rightarrow> document option \<Rightarrow> resolved_native_drop option" where
  "answer tag found = map_option (\<lambda>d. \<lparr>drop_type = tag, entity = d\<rparr>) found"

text \<open>
  Where the cast of a compendium document to an actor goes wrong: the location is an
  item embedded in a compendium actor, and the pack has the document, but it is not
  an actor.
\<close>

fun not_an_actor :: "game \<Rightarrow> location \<Rightarrow> bool" where
  "not_an_actor g (CompendiumActorItem pack actorId ident) =
     (case coll_get (game_packs g) pack of
        None \<Rightarrow> False
      | Some p \<Rightarrow> (case getDocument p actorId of None \<Rightarrow> False | Some d \<Rightarrow> \<not> is_actor_doc d))"
| "not_an_actor g l = False"

text \<open>The pack a location names is one the host has.\<close>

fun pack_exists :: "game \<Rightarrow> location \<Rightarrow> bool" where
  "pack_exists g (CompendiumDocument pack ident) = (coll_get (game_packs g) pack \<noteq> None)"
| "pack_exists g l = True"

section \<open>The allow-drop predicate of enable_native_dropping\<close>

text \<open>
  Lines 495 to 506: the predicate parses the payload again at every call and keeps
  nothing; it only asks that \<^verbatim>\<open>id\<close> and \<^verbatim>\<open>type\<close> are not \<^verbatim>\<open>undefined\<close>.
\<close>

definition native_allow_drop :: "(string \<Rightarrow> js_value) \<Rightarrow> string \<Rightarrow> bool" where
  "native_allow_drop safe_json_parse data =
     (let pdata = safe_json_parse data
      in js_prop pdata ''id'' \<noteq> None \<and> js_prop pdata ''type'' \<noteq> None)"

section \<open>convert_ref_to_native_drop\<close>

text \<open>
  \<^verbatim>\<open>FoundryReg.parse_reg_args\<close>, \<^verbatim>\<open>is_item_type\<close>, \<^verbatim>\<open>is_actor_type\<close> and
  \<^verbatim>\<open>get_pack_id\<close> are imported from other modules and are parameters. Of a parsed
  registry name the function reads \<^verbatim>\<open>src\<close> and four ids; an id the name does not
  carry is \<^verbatim>\<open>undefined\<close>.
\<close>

record reg_name_parsed =
  rn_src :: string
  rn_comp_id :: "string option"
  rn_scene_id :: "string option"
  rn_token_id :: "string option"
  rn_actor_id :: "string option"

text \<open>The scaffold \<^verbatim>\<open>evt\<close>, a partial drop: every field starts out \<^verbatim>\<open>undefined\<close>.\<close>

record native_drop =
  nd_type :: "string option"
  nd_pack :: "string option"
  nd_sceneId :: "string option"
  nd_tokenId :: "string option"
  nd_actorId :: "string option"
  nd_id :: "string option"

definition empty_drop :: native_drop where
  "empty_drop =
     \<lparr>nd_type = None, nd_pack = None, nd_sceneId = None, nd_tokenId = None,
      nd_actorId = None, nd_id = None\<rparr>"

text \<open>
  \<^verbatim>\<open>game.scenes.get(evt.sceneId)?.tokens.get(evt.tokenId)?.actor.id\<close>: the chain stops
  with \<^verbatim>\<open>undefined\<close> at a missing scene or token, but reads \<^verbatim>\<open>id\<close> of the token's
  actor without asking whether there is one.
\<close>

definition token_actor_id ::
  "game \<Rightarrow> string option \<Rightarrow> string option \<Rightarrow> js_error + string option" where
  "token_actor_id g sceneId tokenId =
     (case scene_token g (map_option JStr sceneId) (map_option JStr tokenId) of
        None \<Rightarrow> Inr None
      | Some t \<Rightarrow>
          (case token_actor t of
             None \<Rightarrow> Inl TypeError
           | Some a \<Rightarrow> Inr (Some (actor_id a))))"

definition convert_ref_to_native_drop ::
  "(string \<Rightarrow> reg_name_parsed) \<Rightarrow> (string \<Rightarrow> bool) \<Rightarrow> (string \<Rightarrow> bool) \<Rightarrow> (string \<Rightarrow> string)
     \<Rightarrow> reg_ref \<Rightarrow> world \<Rightarrow> (js_error + native_drop option) \<times> world" where
  "convert_ref_to_native_drop parse_reg_args is_item_type is_actor_type get_pack_id ref w =
     (case ref_type ref of
        None \<Rightarrow>
          (Inr None,
           w\<lparr>world_console := world_console w @
               [ConsoleError ''Attempted to turn a null-typed ref into a native drop. This is, generally, impossible'' None]\<rparr>)
      | Some ty \<Rightarrow>
          if ty = [] then
            (Inr None,
             w\<lparr>world_console := world_console w @
                 [ConsoleError ''Attempted to turn a null-typed ref into a native drop. This is, generally, impossible'' None]\<rparr>)
          else
            (let rn = parse_reg_args (ref_reg_name ref)
             in if \<not> is_item_type ty \<and> \<not> is_actor_type ty then
                  (Inr None,
                   w\<lparr>world_console := world_console w @
                       [ConsoleError ''Couldn't convert the following ref into a native foundry drop event:'' (Some ref)]\<rparr>)
                else
                  (let evt1 = empty_drop\<lparr>nd_type := Some (if is_item_type ty then ''Item'' else ''Actor'')\<rparr>;
                       evt2 =
                         (if rn_src rn = ''comp_core'' then evt1\<lparr>nd_pack := Some (get_pack_id ty)\<rparr>
                          else if rn_src rn = ''comp'' then evt1\<lparr>nd_pack := rn_comp_id rn\<rparr>
                          else evt1);
                       evt3 =
                         (if rn_src rn = ''scene'' then
                            evt2\<lparr>nd_sceneId := rn_scene_id rn, nd_tokenId := Some (ref_id ref)\<rparr>
                          else if rn_src rn = ''scene_token'' then
                            evt2\<lparr>nd_sceneId := rn_scene_id rn, nd_tokenId := rn_token_id rn\<rparr>
                          else evt2);
                       evt4 =
                         (if rn_src rn = ''comp_actor'' then Inr (evt3\<lparr>nd_actorId := rn_actor_id rn\<rparr>)
                          else if rn_src rn = ''game_actor'' then Inr (evt3\<lparr>nd_actorId := rn_actor_id rn\<rparr>)
                          else if rn_src rn = ''scene_token'' then
                            (case token_actor_id (world_game w) (nd_sceneId evt3) (nd_tokenId evt3) of
                               Inl e \<Rightarrow> Inl e
                             | Inr a \<Rightarrow> Inr (evt3\<lparr>nd_actorId := a\<rparr>))
                          else Inr evt3)
                   in case evt4 of
                        Inl e \<Rightarrow> (Inl e, w)
                      | Inr evt5 \<Rightarrow>
                          if rn_src rn = ''scene'' then
                            (case token_actor_id (world_game w) (nd_sceneId evt5) (nd_tokenId evt5) of
                               Inl e \<Rightarrow> (Inl e, w)
                             | Inr a \<Rightarrow> (Inr (Some (evt5\<lparr>nd_id := a\<rparr>)), w))
                          else (Inr (Some (evt5\<lparr>nd_id := Some (ref_id ref)\<rparr>)), w))))"

section \<open>Dragging and dropping refs\<close>

text \<open>
  An element of the page, as far as the helpers look at it: its data attributes and
  whether it can be dragged.
\<close>

record element =
  dataset :: "string \<rightharpoonup> string"
  draggable :: bool

subsection \<open>enable_dragging and enable_simple_ref_dragging\<close>

text \<open>
  A drag event carries the data transfer of the browser's event, which is missing on
  an event that no browser made, and the two propagation flags.
\<close>

record drag_event =
  data_transfer :: "(string \<rightharpoonup> string) option"
  propagation_stopped :: bool
  immediate_propagation_stopped :: bool

text \<open>
  A handler answers with the event as it leaves it and the calls it made to the
  optional \<^verbatim>\<open>start_stop_func\<close>, whose body belongs to the caller.
\<close>

type_synonym drag_handler = "drag_event \<Rightarrow> js_error + drag_event \<times> (string \<times> element) list"

definition dragstart_handler ::
  "(element \<Rightarrow> drag_event \<Rightarrow> string) \<Rightarrow> bool \<Rightarrow> element \<Rightarrow> drag_handler" where
  "dragstart_handler data_transfer_func has_start_stop item event =
     (case data_transfer event of
        None \<Rightarrow> Inl TypeError
      | Some dt \<Rightarrow>
          Inr (event\<lparr>data_transfer := Some (dt(''text/plain'' \<mapsto> data_transfer_func item event)),
                     propagation_stopped := True,
                     immediate_propagation_stopped := True\<rparr>,
               if has_start_stop then [(''start'', item)] else []))"

definition dragend_handler :: "bool \<Rightarrow> element \<Rightarrow> drag_handler" where
  "dragend_handler has_start_stop item event =
     Inr (event, if has_start_stop then [(''stop'', item)] else [])"

record drag_source =
  source :: element
  on_dragstart :: drag_handler
  on_dragend :: drag_handler

text \<open>
  \<^verbatim>\<open>enable_dragging\<close> makes every element draggable and binds the two handlers to each
  of them separately.
\<close>

definition enable_dragging ::
  "element list \<Rightarrow> (element \<Rightarrow> drag_event \<Rightarrow> string) \<Rightarrow> bool \<Rightarrow> drag_source list" where
  "enable_dragging elems data_transfer_func has_start_stop =
     map (\<lambda>el. let item = el\<lparr>draggable := True\<rparr>
               in \<lparr>source = item,
                   on_dragstart = dragstart_handler data_transfer_func has_start_stop item,
                   on_dragend = dragend_handler has_start_stop item\<rparr>)
       elems"

text \<open>
  \<^verbatim>\<open>recreate_ref_from_element\<close> comes from another module and \<^verbatim>\<open>JSON.stringify\<close>
  from the runtime; both are parameters.
\<close>

definition enable_simple_ref_dragging ::
  "(element \<Rightarrow> 'ref option) \<Rightarrow> ('ref \<Rightarrow> string) \<Rightarrow> element list \<Rightarrow> bool \<Rightarrow> drag_source list" where
  "enable_simple_ref_dragging recreate_ref_from_element stringify elems has_start_stop =
     enable_dragging elems
       (\<lambda>drag_src event.
          case recreate_ref_from_element drag_src of
            Some ref \<Rightarrow> stringify ref
          | None \<Rightarrow> [])
       has_start_stop"

subsection \<open>enable_simple_ref_dropping\<close>

text \<open>The plain read \<^verbatim>\<open>v.k\<close>, which throws on \<^verbatim>\<open>null\<close> and \<^verbatim>\<open>undefined\<close>.\<close>

fun js_get :: "js_value \<Rightarrow> string \<Rightarrow> js_error + js_value" where
  "js_get None k = Inl TypeError"
| "js_get (Some JNull) k = Inl TypeError"
| "js_get v k = Inr (js_prop v k)"

text \<open>\<^verbatim>\<open>s.includes(t)\<close> on strings: \<open>t\<close> occurs somewhere in \<open>s\<close>.\<close>

fun string_includes :: "string \<Rightarrow> string \<Rightarrow> bool" where
  "string_includes [] t = (t = [])"
| "string_includes (c # s) t = (take (length t) (c # s) = t \<or> string_includes s t)"

text \<open>The text \<^verbatim>\<open>includes\<close> searches for when it is handed any value.\<close>

fun js_search_text :: "js_value \<Rightarrow> js_error + string" where
  "js_search_text None = Inr ''undefined''"
| "js_search_text (Some v) = js_to_string v"

definition js_includes :: "string \<Rightarrow> js_value \<Rightarrow> js_error + bool" where
  "js_includes s v =
     (case js_search_text v of Inl e \<Rightarrow> Inl e | Inr t \<Rightarrow> Inr (string_includes s t))"

text \<open>
  Lines 425 to 433, the predicate handed to \<^verbatim>\<open>enable_dropping\<close>. \<^verbatim>\<open>is_ref\<close> is
  imported from another module and is a parameter.
\<close>

definition simple_ref_allow_drop ::
  "(string \<Rightarrow> js_value) \<Rightarrow> (js_value \<Rightarrow> bool) \<Rightarrow> string \<Rightarrow> element \<Rightarrow> js_error + bool" where
  "simple_ref_allow_drop safe_json_parse is_ref data dest =
     (let recon_ref = safe_json_parse data
      in if is_ref recon_ref then
           (let dest_type = dataset dest ''type''
            in case js_get recon_ref ''type'' of
                 Inl e \<Rightarrow> Inl e
               | Inr ty \<Rightarrow> js_includes (case dest_type of None \<Rightarrow> [] | Some t \<Rightarrow> t) ty)
         else Inr False)"

text \<open>
  Lines 397 to 422, the drop handler. Once it has not returned early it stops the
  propagation of the event and resolves the ref (\<open>resolve\<close> stands for the registry
  of \<^verbatim>\<open>FoundryReg\<close>, a parameter): the entry goes to \<^verbatim>\<open>on_drop\<close>, a failure to the
  console.
\<close>

datatype 'e drop_outcome = NotHandled | Dropped 'e | FailedToResolve

definition simple_ref_drop_handler ::
  "(string \<Rightarrow> js_value) \<Rightarrow> (js_value \<Rightarrow> bool) \<Rightarrow> (js_value \<Rightarrow> 'e option) \<Rightarrow> string \<Rightarrow> element
     \<Rightarrow> js_error + 'e drop_outcome" where
  "simple_ref_drop_handler safe_json_parse is_ref resolve ref_json dest =
     (let recon_ref = safe_json_parse ref_json;
          dest_type = dataset dest ''type''
      in if \<not> is_ref recon_ref then Inr NotHandled
         else
           (case
              (case dest_type of
                 None \<Rightarrow> Inr False
               | Some t \<Rightarrow>
                   if t = [] then Inr False
                   else
                     (case js_get recon_ref ''type'' of
                        Inl e \<Rightarrow> Inl e
                      | Inr ty \<Rightarrow>
                          (case js_includes t ty of Inl e \<Rightarrow> Inl e | Inr b \<Rightarrow> Inr (\<not> b))))
            of
              Inl e \<Rightarrow> Inl e
            | Inr True \<Rightarrow> Inr NotHandled
            | Inr False \<Rightarrow>
                Inr (case resolve recon_ref of Some r \<Rightarrow> Dropped r | None \<Rightarrow> FailedToResolve)))"

section \<open>The effect views\<close>

record lancer_active_effect =
  uuid :: string
  label :: string

record effect_category =
  category_label :: string
  effects :: "lancer_active_effect list"

definition effect_view :: "lancer_active_effect \<Rightarrow> string" where
  \<open>effect_view effect =
     ''<div class="flexrow active-effect" data-uuid="'' @ uuid effect @
     ''">\<newline>                <div>\<newline>                    Label: '' @ label effect @
     ''\<newline>                </div>\<newline>                <a class="lancer-context-menu" data-context-menu="active-effect">\<newline>                    <i class="fas fa-ellipsis-v"></i>\<newline>                </a>\<newline>            </div>''\<close>

text \<open>\<^verbatim>\<open>strings.join("")\<close>\<close>

definition join_empty :: "string list \<Rightarrow> string" where
  "join_empty strs = concat strs"

text \<open>The body of the loop: the card pushed for one category.\<close>

definition category_card :: "effect_category \<Rightarrow> string" where
  \<open>category_card cat =
     ''\<newline>        <div class="card clipped">\<newline>            <span class="lancer-header submajor">'' @ category_label cat @
     ''</span>\<newline>            <div class="flexcol">\<newline>                '' @ join_empty (map effect_view (effects cat)) @
     ''\<newline>            </div>\<newline>        </div>\<newline>        ''\<close>

text \<open>The loop over the categories, with the array it pushes to.\<close>

fun push_categories :: "effect_category list \<Rightarrow> string list \<Rightarrow> string list" where
  "push_categories [] categories = categories"
| "push_categories (cat # rest) categories = push_categories rest (categories @ [category_card cat])"

definition effect_categories_view :: "effect_category list \<Rightarrow> string" where
  \<open>effect_categories_view effs =
     ''<div class="flexcol">'' @ join_empty (push_categories effs []) @ '' </div>''\<close>

section \<open>A small world to run the functions in\<close>

text \<open>
  One actor with one embedded item, a compendium of actors and one of items, a scene
  with a token of that actor and a token whose actor is gone, and one world item and
  one journal entry.
\<close>

definition example_actor :: actor where
  "example_actor = \<lparr>actor_id = ''a1'', items = [''i1'' \<mapsto> \<lparr>item_id = ''i1''\<rparr>]\<rparr>"

definition example_game :: game where
  "example_game =
     \<lparr>game_packs =
        [''world.npcs'' \<mapsto> [''a1'' \<mapsto> ActorDoc example_actor],
         ''world.items'' \<mapsto> [''i2'' \<mapsto> ItemDoc \<lparr>item_id = ''i2''\<rparr>]],
      game_scenes =
        [''s1'' \<mapsto>
           \<lparr>tokens =
              [''t1'' \<mapsto> \<lparr>token_actor = Some example_actor\<rparr>,
               ''t2'' \<mapsto> \<lparr>token_actor = None\<rparr>]\<rparr>],
      game_actors = [''a1'' \<mapsto> example_actor],
      game_items = [''i3'' \<mapsto> \<lparr>item_id = ''i3''\<rparr>],
      game_journals = [''j1'' \<mapsto> \<lparr>journal_id = ''j1''\<rparr>]\<rparr>"

definition example_world :: world where
  "example_world = \<lparr>world_game = example_game, world_console = []\<rparr>"

text \<open>
  What \<^verbatim>\<open>JSON.parse\<close> makes of the payloads used below; any other text is taken as
  not parseable.
\<close>

definition example_parse :: "string \<Rightarrow> js_value" where
  \<open>example_parse text =
     map_of
       [(''{"type":"Item","id":"a1","pack":"world.npcs"}'',
         JObj [(''type'', JStr ''Item''), (''id'', JStr ''a1''), (''pack'', JStr ''world.npcs'')]),
        (''{"type":"Item","id":"i2","pack":"world.items"}'',
         JObj [(''type'', JStr ''Item''), (''id'', JStr ''i2''), (''pack'', JStr ''world.items'')]),
        (''{"type":"Actor","id":"i2","pack":"world.items"}'',
         JObj [(''type'', JStr ''Actor''), (''id'', JStr ''i2''), (''pack'', JStr ''world.items'')]),
        (''{"type":"Actor","id":"a1","pack":"world.npcs"}'',
         JObj [(''type'', JStr ''Actor''), (''id'', JStr ''a1''), (''pack'', JStr ''world.npcs'')]),
        (''{"type":"Item","id":"x","pack":"nope"}'',
         JObj [(''type'', JStr ''Item''), (''id'', JStr ''x''), (''pack'', JStr ''nope'')]),
        (''{"type":"JournalEntry","id":"j1","pack":"nope"}'',
         JObj [(''type'', JStr ''JournalEntry''), (''id'', JStr ''j1''), (''pack'', JStr ''nope'')]),
        (''{"type":"Macro","id":"m1"}'',
         JObj [(''type'', JStr ''Macro''), (''id'', JStr ''m1'')]),
        (''{"id":"a1","type":"npc","reg_name":"game","fallback_lid":""}'',
         JObj [(''id'', JStr ''a1''), (''type'', JStr ''npc''), (''reg_name'', JStr ''game''),
               (''fallback_lid'', JStr [])]),
        (''{"id":"a1","type":"","reg_name":"game","fallback_lid":""}'',
         JObj [(''id'', JStr ''a1''), (''type'', JStr []), (''reg_name'', JStr ''game''),
               (''fallback_lid'', JStr [])])]
       text\<close>

text \<open>
  Stand-ins for the imported helpers: a registry name is \<^verbatim>\<open>scene|s1\<close> or the plain
  world, \<^verbatim>\<open>npc\<close> is the one actor type and \<^verbatim>\<open>mech_weapon\<close> the one item type, and
  a ref is an object that has a \<^verbatim>\<open>fallback_lid\<close>.
\<close>

definition example_parse_reg_args :: "string \<Rightarrow> reg_name_parsed" where
  "example_parse_reg_args name =
     (if name = ''scene|s1'' then
        \<lparr>rn_src = ''scene'', rn_comp_id = None, rn_scene_id = Some ''s1'',
         rn_token_id = None, rn_actor_id = None\<rparr>
      else
        \<lparr>rn_src = ''game'', rn_comp_id = None, rn_scene_id = None,
         rn_token_id = None, rn_actor_id = None\<rparr>)"

definition example_is_item_type :: "string \<Rightarrow> bool" where
  "example_is_item_type ty = (ty = ''mech_weapon'')"

definition example_is_actor_type :: "string \<Rightarrow> bool" where
  "example_is_actor_type ty = (ty = ''npc'')"

definition example_get_pack_id :: "string \<Rightarrow> string" where
  "example_get_pack_id ty = ''world.'' @ ty"

definition example_is_ref :: "js_value \<Rightarrow> bool" where
  "example_is_ref v = (js_prop v ''fallback_lid'' \<noteq> None)"

text \<open>The text \<^verbatim>\<open>includes\<close> is handed by the ref handlers: that of the ref's type.\<close>

definition ref_type_text :: "js_value \<Rightarrow> js_error + string" where
  "ref_type_text recon_ref =
     (case js_get recon_ref ''type'' of Inl e \<Rightarrow> Inl e | Inr ty \<Rightarrow> js_search_text ty)"

section \<open>What resolve_native_drop leaves alone and what it depends on\<close>

lemma return_if_exists_fst:
  "fst (return_if_exists tag r d w) =
     (case r of Inl e \<Rightarrow> Inl e | Inr found \<Rightarrow> Inr (answer tag found))"
  by (simp add: return_if_exists_def couldnt_resolve_def answer_def
      split: sum.splits option.splits)

lemma return_if_exists_game:
  "world_game (snd (return_if_exists tag r d w)) = world_game w"
  by (simp add: return_if_exists_def couldnt_resolve_def split: sum.splits option.splits)

lemma resolve_native_drop_keeps_game:
  "world_game (snd (resolve_native_drop p s w)) = world_game w"
  by (simp add: resolve_native_drop_def Let_def return_if_exists_game couldnt_resolve_def
      split: sum.splits bool.splits)

lemma resolve_native_drop_same_game:
  "world_game w = world_game w' \<Longrightarrow>
   fst (resolve_native_drop p s w) = fst (resolve_native_drop p s w')"
  by (simp add: resolve_native_drop_def Let_def return_if_exists_fst couldnt_resolve_def
      split: sum.splits bool.splits)

text \<open>
  Claim C5. Whatever the payload text and whatever the host holds, the game after the
  call is the game before it: packs, scenes, actors, items and journals, with every
  document in them. All the call can do to the world is to add its one line to the
  console.
\<close>

theorem resolve_native_drop_reads_only:
  "world_game (snd (resolve_native_drop safe_json_parse event_data w)) = world_game w
   \<and> (snd (resolve_native_drop safe_json_parse event_data w) = w
        \<or> snd (resolve_native_drop safe_json_parse event_data w) =
            w\<lparr>world_console :=
                world_console w @
                [ConsoleLog ''Couldn't resolve native drop:'' (safe_json_parse event_data)]\<rparr>)"
proof -
  let ?after = "snd (resolve_native_drop safe_json_parse event_data w)"
  let ?logged = "snd (couldnt_resolve (safe_json_parse event_data) w)"
  have branch: "snd (return_if_exists tag r (safe_json_parse event_data) w) = w
      \<or> snd (return_if_exists tag r (safe_json_parse event_data) w) = ?logged" for tag r
    by (simp add: return_if_exists_def split: sum.splits option.splits)
  have "?after = w \<or> ?after = ?logged"
    using branch
    by (simp add: resolve_native_drop_def Let_def split: sum.splits bool.splits)
  moreover have "world_game ?logged = world_game w"
    by (simp add: couldnt_resolve_def)
  moreover have "?logged =
      w\<lparr>world_console :=
          world_console w @
          [ConsoleLog ''Couldn't resolve native drop:'' (safe_json_parse event_data)]\<rparr>"
    by (simp add: couldnt_resolve_def)
  ultimately show ?thesis
    by auto
qed

text \<open>
  Claim C6. The result of a call is a function of its argument and of the game alone:
  two worlds with the same game give the same result whatever their consoles hold, and
  a call made after any earlier call gives what it would have given without it; in
  particular the same text resolved twice resolves to the same.
\<close>

theorem resolve_native_drop_no_hidden_state:
  "(world_game w = world_game w' \<longrightarrow>
      fst (resolve_native_drop safe_json_parse event_data w) =
      fst (resolve_native_drop safe_json_parse event_data w'))
   \<and> fst (resolve_native_drop safe_json_parse event_data
            (snd (resolve_native_drop safe_json_parse earlier w))) =
       fst (resolve_native_drop safe_json_parse event_data w)"
  using resolve_native_drop_same_game resolve_native_drop_keeps_game by blast

theorem resolve_native_drop_no_hidden_state_witness:
  \<open>world_game (example_world\<lparr>world_console := [ConsoleLog ''earlier'' None]\<rparr>) =
     world_game example_world
   \<and> fst (resolve_native_drop example_parse ''{"type":"Macro","id":"m1"}''
            (example_world\<lparr>world_console := [ConsoleLog ''earlier'' None]\<rparr>)) =
       fst (resolve_native_drop example_parse ''{"type":"Macro","id":"m1"}'' example_world)
   \<and> snd (resolve_native_drop example_parse ''{"type":"Macro","id":"m1"}'' example_world)
       \<noteq> example_world\<close>
proof -
  have same: "world_game (example_world\<lparr>world_console := [ConsoleLog ''earlier'' None]\<rparr>) =
      world_game example_world"
    by simp
  have changed:
    \<open>snd (resolve_native_drop example_parse ''{"type":"Macro","id":"m1"}'' example_world)
       \<noteq> example_world\<close>
    by (simp add: resolve_native_drop_def example_parse_def example_world_def
        couldnt_resolve_def Let_def)
  from same changed
    resolve_native_drop_no_hidden_state
      [of "example_world\<lparr>world_console := [ConsoleLog ''earlier'' None]\<rparr>" example_world]
  show ?thesis by blast
qed

text \<open>
  The allow-drop predicate of \<open>enable_native_dropping\<close> resolves nothing and stores
  nothing: it accepts exactly the parsed objects that have an \<^verbatim>\<open>id\<close> and a
  \<^verbatim>\<open>type\<close>.
\<close>

lemma native_allow_drop_iff:
  "native_allow_drop safe_json_parse data \<longleftrightarrow>
     (\<exists>kvs. safe_json_parse data = Some (JObj kvs)
        \<and> map_of kvs ''id'' \<noteq> None \<and> map_of kvs ''type'' \<noteq> None)"
proof (cases "safe_json_parse data")
  case None
  then show ?thesis by (simp add: native_allow_drop_def)
next
  case (Some v)
  then show ?thesis by (cases v) (simp_all add: native_allow_drop_def)
qed

section \<open>The code against the locations of the specification\<close>

lemma resolve_item_location:
  "resolve_item g d =
     (if not_an_actor g (item_location d) \<or> \<not> pack_exists g (item_location d)
      then Inl TypeError
      else Inr (consult g (item_location d)))"
  by (auto simp add: resolve_item_def item_location_def Let_def items_of_actor_doc_def
      split: option.splits document.splits)

lemma resolve_actor_location:
  "resolve_actor g d =
     (if \<not> pack_exists g (actor_location d) then Inl TypeError
      else Inr (consult g (actor_location d)))"
  by (auto simp add: resolve_actor_def actor_location_def Let_def split: option.splits)

lemma resolve_journal_location:
  "resolve_journal g d =
     (if \<not> pack_exists g (journal_location d) then Inl TypeError
      else Inr (consult g (journal_location d)))"
  by (auto simp add: resolve_journal_def journal_location_def Let_def split: option.splits)

text \<open>
  Claim C1, as the specification states it, fails where a pack hands out a document
  that is no item: the payload names the actor \<open>a1\<close> of the compendium of actors as
  an item of that pack, the lookup yields an actor, and the code returns it under the
  tag \<^verbatim>\<open>Item\<close> where the specification has \<^verbatim>\<open>null\<close>.
\<close>

theorem item_drop_kind_counterexample:
  \<open>fst (resolve_native_drop example_parse
          ''{"type":"Item","id":"a1","pack":"world.npcs"}'' example_world) =
     Inr (Some \<lparr>drop_type = ''Item'', entity = ActorDoc example_actor\<rparr>)
   \<and> answer_of_kind ''Item'' is_item_doc
        (consult (world_game example_world)
           (item_location
              (example_parse ''{"type":"Item","id":"a1","pack":"world.npcs"}''))) =
     None\<close>
  by (simp add: resolve_native_drop_def return_if_exists_def resolve_item_def
      item_location_def answer_of_kind_def getDocument_def
      example_parse_def example_world_def example_game_def Let_def)

text \<open>
  Claim C1, amended. For a payload that parses to an object whose type is the string
  \<^verbatim>\<open>Item\<close>, the code consults the one location \<open>item_location\<close> picks, by the first
  case that matches in the order of the specification (a field is set when it is
  truthy). It returns whatever document the lookup yields under the tag \<^verbatim>\<open>Item\<close>,
  of whatever kind the pack stores, and \<^verbatim>\<open>null\<close> when the lookup yields nothing.
  Two situations are taken not to arise and are left to claim C3: a pack named alone
  (the fourth case) that does not exist, and a document found for \<^verbatim>\<open>actorId\<close> in a
  pack (the first case) that is not an actor.
\<close>

theorem item_drop_location:
  assumes "safe_json_parse event_data = Some (JObj kvs)"
    and "map_of kvs ''type'' = Some (JStr ''Item'')"
    and "pack_exists (world_game w) (item_location (safe_json_parse event_data))"
    and "\<not> not_an_actor (world_game w) (item_location (safe_json_parse event_data))"
  shows "fst (resolve_native_drop safe_json_parse event_data w) =
     Inr (answer ''Item''
       (consult (world_game w) (item_location (safe_json_parse event_data))))"
  using assms
  by (simp add: resolve_native_drop_def Let_def return_if_exists_fst resolve_item_location)

theorem item_drop_location_witness:
  \<open>pack_exists (world_game example_world)
     (item_location (example_parse ''{"type":"Item","id":"i2","pack":"world.items"}''))
   \<and> \<not> not_an_actor (world_game example_world)
     (item_location (example_parse ''{"type":"Item","id":"i2","pack":"world.items"}''))
   \<and> fst (resolve_native_drop example_parse
          ''{"type":"Item","id":"i2","pack":"world.items"}'' example_world) =
     Inr (Some \<lparr>drop_type = ''Item'', entity = ItemDoc \<lparr>item_id = ''i2''\<rparr>\<rparr>)\<close>
proof -
  let ?text = \<open>''{"type":"Item","id":"i2","pack":"world.items"}''\<close>
  let ?kvs = "[(''type'', JStr ''Item''), (''id'', JStr ''i2''), (''pack'', JStr ''world.items'')]"
  have parsed: "example_parse ?text = Some (JObj ?kvs)"
    by (simp add: example_parse_def)
  have typed: "map_of ?kvs ''type'' = Some (JStr ''Item'')"
    by simp
  have loc: "item_location (Some (JObj ?kvs)) =
      CompendiumDocument (Some (JStr ''world.items'')) (Some (JStr ''i2''))"
    by (simp add: item_location_def Let_def)
  have pack: "pack_exists (world_game example_world) (item_location (example_parse ?text))"
    by (simp add: parsed loc example_world_def example_game_def)
  have cast: "\<not> not_an_actor (world_game example_world) (item_location (example_parse ?text))"
    by (simp add: parsed loc)
  from item_drop_location
         [of example_parse ?text ?kvs example_world, OF parsed typed pack cast] pack cast
  show ?thesis
    by (simp add: parsed loc answer_def getDocument_def example_world_def example_game_def)
qed

text \<open>
  Claim C2, as the specification states it, fails the same way: the payload names the
  item \<open>i2\<close> of the compendium of items as an actor, and the code returns the item
  under the tag \<^verbatim>\<open>Actor\<close> where the specification has \<^verbatim>\<open>null\<close>.
\<close>

theorem actor_drop_kind_counterexample:
  \<open>fst (resolve_native_drop example_parse
          ''{"type":"Actor","id":"i2","pack":"world.items"}'' example_world) =
     Inr (Some \<lparr>drop_type = ''Actor'', entity = ItemDoc \<lparr>item_id = ''i2''\<rparr>\<rparr>)
   \<and> answer_of_kind ''Actor'' is_actor_doc
        (consult (world_game example_world)
           (actor_location
              (example_parse ''{"type":"Actor","id":"i2","pack":"world.items"}''))) =
     None\<close>
  by (simp add: resolve_native_drop_def return_if_exists_def resolve_actor_def
      actor_location_def answer_of_kind_def getDocument_def
      example_parse_def example_world_def example_game_def Let_def)

text \<open>
  Claim C2, amended. For a payload that parses to an object whose type is the string
  \<^verbatim>\<open>Actor\<close>, the code consults the one location \<open>actor_location\<close> picks: the
  document \<^verbatim>\<open>id\<close> of the pack when \<^verbatim>\<open>pack\<close> is set, else the actor of the token
  \<^verbatim>\<open>tokenId\<close> of the scene when \<^verbatim>\<open>sceneId\<close> and \<^verbatim>\<open>actorId\<close> are both set, else
  the world actor \<^verbatim>\<open>id\<close>. It returns whatever document the lookup yields under the
  tag \<^verbatim>\<open>Actor\<close>, of whatever kind the pack stores, and \<^verbatim>\<open>null\<close> when the lookup
  yields nothing. A pack that is named is taken to exist; what happens when it does
  not is left to claim C3.
\<close>

theorem actor_drop_location:
  assumes "safe_json_parse event_data = Some (JObj kvs)"
    and "map_of kvs ''type'' = Some (JStr ''Actor'')"
    and "pack_exists (world_game w) (actor_location (safe_json_parse event_data))"
  shows "fst (resolve_native_drop safe_json_parse event_data w) =
     Inr (answer ''Actor''
       (consult (world_game w) (actor_location (safe_json_parse event_data))))"
  using assms
  by (simp add: resolve_native_drop_def Let_def return_if_exists_fst resolve_actor_location)

theorem actor_drop_location_witness:
  \<open>pack_exists (world_game example_world)
     (actor_location (example_parse ''{"type":"Actor","id":"a1","pack":"world.npcs"}''))
   \<and> fst (resolve_native_drop example_parse
          ''{"type":"Actor","id":"a1","pack":"world.npcs"}'' example_world) =
     Inr (Some \<lparr>drop_type = ''Actor'', entity = ActorDoc example_actor\<rparr>)\<close>
proof -
  let ?text = \<open>''{"type":"Actor","id":"a1","pack":"world.npcs"}''\<close>
  let ?kvs = "[(''type'', JStr ''Actor''), (''id'', JStr ''a1''), (''pack'', JStr ''world.npcs'')]"
  have parsed: "example_parse ?text = Some (JObj ?kvs)"
    by (simp add: example_parse_def)
  have typed: "map_of ?kvs ''type'' = Some (JStr ''Actor'')"
    by simp
  have loc: "actor_location (Some (JObj ?kvs)) =
      CompendiumDocument (Some (JStr ''world.npcs'')) (Some (JStr ''a1''))"
    by (simp add: actor_location_def Let_def)
  have pack: "pack_exists (world_game example_world) (actor_location (example_parse ?text))"
    by (simp add: parsed loc example_world_def example_game_def)
  from actor_drop_location [of example_parse ?text ?kvs example_world, OF parsed typed pack] pack
  show ?thesis
    by (simp add: parsed loc answer_def getDocument_def example_world_def example_game_def)
qed

section \<open>Where resolve_native_drop returns null and where it does not\<close>

text \<open>A text that does not parse, or parses to a falsy value, resolves to \<^verbatim>\<open>null\<close>.\<close>

lemma unparseable_gives_null:
  "\<not> js_truthy (safe_json_parse event_data) \<Longrightarrow>
   resolve_native_drop safe_json_parse event_data w = (Inr None, w)"
  by (simp add: resolve_native_drop_def)

text \<open>So does a value whose type compares unequal to the three names.\<close>

lemma other_type_gives_null:
  assumes "js_loose_eq_name (js_prop (safe_json_parse event_data) ''type'') ''Item'' = Inr False"
    and "js_loose_eq_name (js_prop (safe_json_parse event_data) ''type'') ''Actor'' = Inr False"
    and "js_loose_eq_name (js_prop (safe_json_parse event_data) ''type'') ''JournalEntry'' =
         Inr False"
  shows "fst (resolve_native_drop safe_json_parse event_data w) = Inr None"
  using assms by (simp add: resolve_native_drop_def Let_def couldnt_resolve_def)

text \<open>
  Short of an exception the call never resolves in part: it gives \<^verbatim>\<open>null\<close> or a
  document under one of the three tags.
\<close>

lemma resolved_tag:
  assumes "fst (resolve_native_drop safe_json_parse event_data w) = Inr (Some r)"
  shows "drop_type r \<in> {''Item'', ''Actor'', ''JournalEntry''}"
proof -
  have tagged: "drop_type r = tag"
    if "fst (return_if_exists tag found d w) = Inr (Some r)" for tag found d
    using that by (auto simp add: return_if_exists_fst answer_def split: sum.splits)
  from assms show ?thesis
    by (auto simp add: resolve_native_drop_def Let_def couldnt_resolve_def
        split: if_splits sum.splits bool.splits dest: tagged)
qed

text \<open>
  Claim C3 does not hold of the code. The payload below is a well-formed item drop
  naming a compendium pack the host does not have. The first case of the item branch
  guards the pack with \<^verbatim>\<open>?.\<close>; the fourth, taken here, asserts it with \<^verbatim>\<open>!\<close>
  and calls \<^verbatim>\<open>getDocument\<close> on \<^verbatim>\<open>undefined\<close>: the promise is rejected with a
  TypeError instead of settling to \<^verbatim>\<open>null\<close>, and nothing is logged.
\<close>

theorem unknown_pack_throws:
  \<open>resolve_native_drop example_parse ''{"type":"Item","id":"x","pack":"nope"}'' example_world =
     (Inl TypeError, example_world)\<close>
  by (simp add: resolve_native_drop_def return_if_exists_def resolve_item_def
      example_parse_def example_world_def example_game_def Let_def)

text \<open>
  For a journal entry the code does what claim C4 says as long as the pack it names
  exists.
\<close>

lemma journal_drop_location:
  assumes "safe_json_parse event_data = Some (JObj kvs)"
    and "map_of kvs ''type'' = Some (JStr ''JournalEntry'')"
    and "pack_exists (world_game w) (journal_location (safe_json_parse event_data))"
  shows "fst (resolve_native_drop safe_json_parse event_data w) =
     Inr (answer ''JournalEntry''
       (consult (world_game w) (journal_location (safe_json_parse event_data))))"
  using assms
  by (simp add: resolve_native_drop_def Let_def return_if_exists_fst resolve_journal_location)

text \<open>
  Claim C4 does not hold of the code, by the same non-null assertion as in claim C3:
  a journal drop that names a pack the host does not have finds nothing there, and the
  call throws a TypeError where the claim has \<^verbatim>\<open>null\<close>.
\<close>

theorem journal_unknown_pack_throws:
  \<open>consult (world_game example_world)
      (journal_location (example_parse ''{"type":"JournalEntry","id":"j1","pack":"nope"}'')) =
     None
   \<and> fst (resolve_native_drop example_parse
          ''{"type":"JournalEntry","id":"j1","pack":"nope"}'' example_world) =
     Inl TypeError\<close>
  by (simp add: resolve_native_drop_def return_if_exists_def resolve_journal_def
      journal_location_def example_parse_def example_world_def example_game_def Let_def)

section \<open>What convert_ref_to_native_drop returns\<close>

text \<open>The function returns \<^verbatim>\<open>null\<close> exactly for the refs claim C9 lists.\<close>

lemma convert_null_iff:
  "fst (convert_ref_to_native_drop parse_reg_args is_item_type is_actor_type get_pack_id ref w) =
     Inr None
   \<longleftrightarrow> (case ref_type ref of
          None \<Rightarrow> True
        | Some ty \<Rightarrow> ty = [] \<or> (\<not> is_item_type ty \<and> \<not> is_actor_type ty))"
  by (simp add: convert_ref_to_native_drop_def Let_def split: option.splits sum.splits)

text \<open>When it returns a drop object, the type and the id are those of claim C9.\<close>

lemma convert_drop_fields:
  assumes "fst (convert_ref_to_native_drop parse_reg_args is_item_type is_actor_type
             get_pack_id ref w) = Inr (Some evt)"
    and "ref_type ref = Some ty"
  shows "nd_type evt = Some (if is_item_type ty then ''Item'' else ''Actor'')"
    and "rn_src (parse_reg_args (ref_reg_name ref)) \<noteq> ''scene'' \<Longrightarrow>
         nd_id evt = Some (ref_id ref)"
    and "rn_src (parse_reg_args (ref_reg_name ref)) = ''scene'' \<Longrightarrow>
         token_actor_id (world_game w) (rn_scene_id (parse_reg_args (ref_reg_name ref)))
           (Some (ref_id ref)) = Inr (nd_id evt)"
  using assms
  by (auto simp add: convert_ref_to_native_drop_def Let_def empty_drop_def
      split: if_splits sum.splits)

text \<open>
  Claim C9 does not hold of the code. The ref below has an actor type and lives in the
  registry of scene \<open>s1\<close>, so its id names a token; the token \<open>t2\<close> exists and has no
  actor. The chain \<^verbatim>\<open>?.tokens.get(evt.tokenId)?.actor.id\<close> reads \<^verbatim>\<open>id\<close> of
  \<^verbatim>\<open>null\<close>: the call throws a TypeError where the claim has a drop object.
  \<^verbatim>\<open>resolve_native_drop\<close> reads the same chain up to \<^verbatim>\<open>actor\<close> and goes on with
  \<^verbatim>\<open>actor?.items\<close>.
\<close>

theorem convert_actorless_token_throws:
  "example_is_actor_type ''npc''
   \<and> convert_ref_to_native_drop example_parse_reg_args example_is_item_type
       example_is_actor_type example_get_pack_id
       \<lparr>ref_type = Some ''npc'', ref_id = ''t2'', ref_reg_name = ''scene|s1''\<rparr> example_world =
     (Inl TypeError, example_world)"
  by (simp add: convert_ref_to_native_drop_def token_actor_id_def scene_token_def
      empty_drop_def example_parse_reg_args_def example_is_item_type_def
      example_is_actor_type_def example_world_def example_game_def Let_def)

section \<open>Dragging a ref\<close>

lemma enable_dragging_sources:
  "map source (enable_dragging elems f has_start_stop) =
     map (\<lambda>el. el\<lparr>draggable := True\<rparr>) elems"
  by (simp add: enable_dragging_def Let_def)

lemma enable_dragging_handler:
  assumes "src \<in> set (enable_dragging elems f has_start_stop)"
  shows "on_dragstart src = dragstart_handler f has_start_stop (source src)"
  using assms by (auto simp add: enable_dragging_def Let_def)

text \<open>
  Claim C7. Take any element wired by \<open>enable_simple_ref_dragging\<close> and any drag
  event that carries a data transfer. The handler of \<^verbatim>\<open>dragstart\<close> succeeds and leaves
  under \<^verbatim>\<open>text/plain\<close> the serialisation of the ref recreated from the element, or
  the empty string when no ref can be recreated; whatever else the transfer held stays.
\<close>

theorem simple_ref_drag_payload:
  assumes "src \<in> set (enable_simple_ref_dragging recreate_ref_from_element stringify
                        elems has_start_stop)"
    and "data_transfer event = Some dt"
  shows "\<exists>event' calls.
           on_dragstart src event = Inr (event', calls)
           \<and> data_transfer event' =
               Some (dt(''text/plain'' \<mapsto>
                 (case recreate_ref_from_element (source src) of
                    Some ref \<Rightarrow> stringify ref
                  | None \<Rightarrow> [])))"
  using assms
  by (auto simp add: enable_simple_ref_dragging_def dragstart_handler_def
      dest!: enable_dragging_handler)

theorem simple_ref_drag_payload_witness:
  \<open>(let wired = enable_simple_ref_dragging (\<lambda>el. dataset el ''id'')
                   (\<lambda>ident. ''{"id":"'' @ ident @ ''"}'')
                   [\<lparr>dataset = [''id'' \<mapsto> ''a1''], draggable = False\<rparr>,
                    \<lparr>dataset = Map.empty, draggable = False\<rparr>] False;
         event = \<lparr>data_transfer = Some Map.empty, propagation_stopped = False,
                  immediate_propagation_stopped = False\<rparr>
     in map (\<lambda>src. case on_dragstart src event of
                      Inl e \<Rightarrow> None
                    | Inr (event', calls) \<Rightarrow>
                        (case data_transfer event' of
                           None \<Rightarrow> None
                         | Some dt \<Rightarrow> dt ''text/plain''))
          wired
        = [Some ''{"id":"a1"}'', Some []])\<close>
proof -
  let ?recreate = "\<lambda>el. dataset el ''id''"
  let ?stringify = \<open>\<lambda>ident. ''{"id":"'' @ ident @ ''"}''\<close>
  let ?e1 = "\<lparr>dataset = [''id'' \<mapsto> ''a1''], draggable = False\<rparr>"
  let ?e2 = "\<lparr>dataset = Map.empty, draggable = False\<rparr>"
  let ?event = "\<lparr>data_transfer = Some Map.empty, propagation_stopped = False,
                  immediate_propagation_stopped = False\<rparr>"
  let ?wired = "enable_simple_ref_dragging ?recreate ?stringify [?e1, ?e2] False"
  have wired: "?wired =
      [\<lparr>source = ?e1\<lparr>draggable := True\<rparr>,
        on_dragstart = on_dragstart (?wired ! 0), on_dragend = on_dragend (?wired ! 0)\<rparr>,
       \<lparr>source = ?e2\<lparr>draggable := True\<rparr>,
        on_dragstart = on_dragstart (?wired ! 1), on_dragend = on_dragend (?wired ! 1)\<rparr>]"
    by (simp add: enable_simple_ref_dragging_def enable_dragging_def Let_def)
  have mem0: "?wired ! 0 \<in> set ?wired" and mem1: "?wired ! 1 \<in> set ?wired"
    by (simp_all add: enable_simple_ref_dragging_def enable_dragging_def Let_def)
  have src0: "source (?wired ! 0) = ?e1\<lparr>draggable := True\<rparr>"
    and src1: "source (?wired ! 1) = ?e2\<lparr>draggable := True\<rparr>"
    by (simp_all add: enable_simple_ref_dragging_def enable_dragging_def Let_def)
  have dt: "data_transfer ?event = Some Map.empty"
    by simp
  from simple_ref_drag_payload [OF mem0 dt] src0
  have first: "(case on_dragstart (?wired ! 0) ?event of
                  Inl e \<Rightarrow> None
                | Inr (event', calls) \<Rightarrow>
                    (case data_transfer event' of
                       None \<Rightarrow> None
                     | Some dt \<Rightarrow> dt ''text/plain'')) = Some (?stringify ''a1'')"
    by auto
  from simple_ref_drag_payload [OF mem1 dt] src1
  have second: "(case on_dragstart (?wired ! 1) ?event of
                  Inl e \<Rightarrow> None
                | Inr (event', calls) \<Rightarrow>
                    (case data_transfer event' of
                       None \<Rightarrow> None
                     | Some dt \<Rightarrow> dt ''text/plain'')) = Some []"
    by auto
  have two: "?wired = [?wired ! 0, ?wired ! 1]"
    by (simp add: enable_simple_ref_dragging_def enable_dragging_def Let_def)
  show ?thesis
    unfolding Let_def
    by (subst two) (simp only: list.map first second, simp)
qed

section \<open>Dropping a ref\<close>

text \<open>\<open>string_includes\<close> is the search for a substring.\<close>

lemma string_includes_iff:
  "string_includes s t \<longleftrightarrow> (\<exists>p q. s = p @ t @ q)"
proof (induction s)
  case Nil
  then show ?case by simp
next
  case (Cons c s)
  have "(\<exists>p q. c # s = p @ t @ q) \<longleftrightarrow>
        (\<exists>q. c # s = t @ q) \<or> (\<exists>p q. s = p @ t @ q)"
  proof
    assume "\<exists>p q. c # s = p @ t @ q"
    then obtain p q where pq: "c # s = p @ t @ q" by blast
    show "(\<exists>q. c # s = t @ q) \<or> (\<exists>p q. s = p @ t @ q)"
    proof (cases p)
      case Nil
      with pq show ?thesis by simp
    next
      case (Cons a p')
      with pq have "s = p' @ t @ q" by simp
      then show ?thesis by blast
    qed
  next
    assume "(\<exists>q. c # s = t @ q) \<or> (\<exists>p q. s = p @ t @ q)"
    then show "\<exists>p q. c # s = p @ t @ q"
    proof
      assume "\<exists>q. c # s = t @ q"
      then obtain q where "c # s = [] @ t @ q" by auto
      then show ?thesis by blast
    next
      assume "\<exists>p q. s = p @ t @ q"
      then obtain p q where "c # s = (c # p) @ t @ q" by auto
      then show ?thesis by blast
    qed
  qed
  moreover have "take (length t) (c # s) = t \<longleftrightarrow> (\<exists>q. c # s = t @ q)"
    by (metis append_eq_conv_conj append_take_drop_id)
  ultimately show ?case using Cons.IH by simp
qed

text \<open>
  Claim C10, as the specification states it, fails for a ref whose type is the empty
  string: the element below has no \<^verbatim>\<open>data-type\<close> attribute, the predicate searches
  the empty string for the empty string, finds it and answers true, where the
  specification has false for every such element.
\<close>

theorem simple_ref_allow_drop_empty_type_counterexample:
  \<open>example_is_ref
     (example_parse ''{"id":"a1","type":"","reg_name":"game","fallback_lid":""}'')
   \<and> dataset \<lparr>dataset = Map.empty, draggable = False\<rparr> ''type'' = None
   \<and> simple_ref_allow_drop example_parse example_is_ref
       ''{"id":"a1","type":"","reg_name":"game","fallback_lid":""}''
       \<lparr>dataset = Map.empty, draggable = False\<rparr> = Inr True\<close>
  by (simp add: simple_ref_allow_drop_def js_includes_def example_is_ref_def
      example_parse_def Let_def)

text \<open>
  Claim C10, amended. For every payload and every destination: a payload that is no
  ref is refused; for a ref the predicate converts the ref's type to the text
  \<^verbatim>\<open>includes\<close> searches for (it throws when that conversion throws) and answers
  whether the text occurs in the \<^verbatim>\<open>data-type\<close> attribute of the destination, an
  element without the attribute counting as the empty string. So on an element without
  the attribute the predicate answers true exactly for a ref whose type text is empty,
  and false for every other ref, whereas the drop handler does not return early for
  any ref dropped there: it resolves the ref and hands the entry on.
\<close>

theorem simple_ref_allow_drop_iff:
  "simple_ref_allow_drop safe_json_parse is_ref data dest =
     (if is_ref (safe_json_parse data) then
        (case ref_type_text (safe_json_parse data) of
           Inl e \<Rightarrow> Inl e
         | Inr t \<Rightarrow>
             Inr (string_includes (case dataset dest ''type'' of None \<Rightarrow> [] | Some dt \<Rightarrow> dt) t))
      else Inr False)
   \<and> (dataset dest ''type'' = None \<longrightarrow>
         (\<forall>t. ref_type_text (safe_json_parse data) = Inr t \<longrightarrow>
            simple_ref_allow_drop safe_json_parse is_ref data dest =
              Inr (is_ref (safe_json_parse data) \<and> t = []))
         \<and> (is_ref (safe_json_parse data) \<longrightarrow>
              simple_ref_drop_handler safe_json_parse is_ref resolve data dest =
                Inr (case resolve (safe_json_parse data) of
                       Some r \<Rightarrow> Dropped r
                     | None \<Rightarrow> FailedToResolve)))"
proof -
  have general: "simple_ref_allow_drop safe_json_parse is_ref data dest =
     (if is_ref (safe_json_parse data) then
        (case ref_type_text (safe_json_parse data) of
           Inl e \<Rightarrow> Inl e
         | Inr t \<Rightarrow>
             Inr (string_includes (case dataset dest ''type'' of None \<Rightarrow> [] | Some dt \<Rightarrow> dt) t))
      else Inr False)"
    by (simp add: simple_ref_allow_drop_def ref_type_text_def js_includes_def Let_def
        split: sum.splits)
  have bare: "simple_ref_allow_drop safe_json_parse is_ref data dest =
      Inr (is_ref (safe_json_parse data) \<and> t = [])"
    if "dataset dest ''type'' = None" and "ref_type_text (safe_json_parse data) = Inr t" for t
    using that by (simp add: general)
  have handler: "simple_ref_drop_handler safe_json_parse is_ref resolve data dest =
      Inr (case resolve (safe_json_parse data) of
             Some r \<Rightarrow> Dropped r
           | None \<Rightarrow> FailedToResolve)"
    if "dataset dest ''type'' = None" and "is_ref (safe_json_parse data)"
    using that by (simp add: simple_ref_drop_handler_def Let_def)
  from general bare handler show ?thesis
    by blast
qed

theorem simple_ref_allow_drop_iff_witness:
  \<open>example_is_ref
     (example_parse ''{"id":"a1","type":"npc","reg_name":"game","fallback_lid":""}'')
   \<and> simple_ref_allow_drop example_parse example_is_ref
       ''{"id":"a1","type":"npc","reg_name":"game","fallback_lid":""}''
       \<lparr>dataset = [''type'' \<mapsto> ''pilot npc''], draggable = False\<rparr> = Inr True
   \<and> simple_ref_allow_drop example_parse example_is_ref
       ''{"id":"a1","type":"npc","reg_name":"game","fallback_lid":""}''
       \<lparr>dataset = Map.empty, draggable = False\<rparr> = Inr False
   \<and> simple_ref_drop_handler example_parse example_is_ref (\<lambda>v. Some ''entry'')
       ''{"id":"a1","type":"npc","reg_name":"game","fallback_lid":""}''
       \<lparr>dataset = Map.empty, draggable = False\<rparr> = Inr (Dropped ''entry'')\<close>
proof -
  let ?data = \<open>''{"id":"a1","type":"npc","reg_name":"game","fallback_lid":""}''\<close>
  let ?typed = "\<lparr>dataset = [''type'' \<mapsto> ''pilot npc''], draggable = False\<rparr>"
  let ?bare = "\<lparr>dataset = Map.empty, draggable = False\<rparr>"
  have parsed: "example_parse ?data =
      Some (JObj [(''id'', JStr ''a1''), (''type'', JStr ''npc''), (''reg_name'', JStr ''game''),
                  (''fallback_lid'', JStr [])])"
    by (simp add: example_parse_def)
  have ref: "example_is_ref (example_parse ?data)"
    by (simp add: parsed example_is_ref_def)
  have rendered: "ref_type_text (example_parse ?data) = Inr ''npc''"
    by (simp add: parsed ref_type_text_def)
  have no_attribute: "dataset ?bare ''type'' = None"
    by simp
  from simple_ref_allow_drop_iff [of example_parse example_is_ref ?data ?typed] ref rendered
  have yes: "simple_ref_allow_drop example_parse example_is_ref ?data ?typed = Inr True"
    by simp
  from simple_ref_allow_drop_iff
         [of example_parse example_is_ref ?data ?bare "\<lambda>v. Some ''entry''"]
       ref rendered no_attribute
  have no: "simple_ref_allow_drop example_parse example_is_ref ?data ?bare = Inr False"
    and handled: "simple_ref_drop_handler example_parse example_is_ref (\<lambda>v. Some ''entry'')
      ?data ?bare = Inr (Dropped ''entry'')"
    by simp_all
  from ref yes no handled show ?thesis by simp
qed

section \<open>The shape of the effect views\<close>

lemma push_categories_map:
  "push_categories effs categories = categories @ map category_card effs"
  by (induction effs arbitrary: categories) simp_all

text \<open>
  Claim C8. The view of a list of categories is the outer \<^verbatim>\<open>div\<close> around one card
  per category, in the order of the list, a category without effects included; a card
  is the label of the category in its header, followed by the views of its effects, one
  after the other in their order; and the view of an effect holds its uuid in the
  \<^verbatim>\<open>data-uuid\<close> attribute and its label after \<^verbatim>\<open>Label:\<close>.
\<close>

theorem effect_categories_view_cards:
  \<open>length (push_categories effs []) = length effs
   \<and> effect_categories_view effs =
       ''<div class="flexcol">'' @
       concat (map (\<lambda>cat.
         ''\<newline>        <div class="card clipped">\<newline>            <span class="lancer-header submajor">'' @
         category_label cat @
         ''</span>\<newline>            <div class="flexcol">\<newline>                '' @
         concat (map effect_view (effects cat)) @
         ''\<newline>            </div>\<newline>        </div>\<newline>        '') effs) @
       '' </div>''
   \<and> effect_view effect =
       ''<div class="flexrow active-effect" data-uuid="'' @
       uuid effect @
       ''">\<newline>                <div>\<newline>                    Label: '' @
       label effect @
       ''\<newline>                </div>\<newline>                <a class="lancer-context-menu" data-context-menu="active-effect">\<newline>                    <i class="fas fa-ellipsis-v"></i>\<newline>                </a>\<newline>            </div>''\<close>
proof -
  have cards: "push_categories effs [] = map category_card effs"
    by (simp add: push_categories_map)
  have one_each: "length (push_categories effs []) = length effs"
    by (simp add: cards)
  have whole: \<open>effect_categories_view effs =
      ''<div class="flexcol">'' @ concat (map category_card effs) @ '' </div>''\<close>
    by (simp add: effect_categories_view_def join_empty_def cards)
  show ?thesis
    unfolding whole
    by (simp add: one_each category_card_def [abs_def] join_empty_def)
      (simp add: effect_view_def)
qed

end
